theory Spec2Isabelle
  imports Complex_Main
begin

section \<open>Data model\<close>

text \<open>
  The Python code works on \<open>float\<close> values and on dictionaries with string keys.
  Floats are modelled as \<open>real\<close> (no rounding); the one NaN this code can produce from
  finite inputs, a p-value at no degrees of freedom, is \<open>None\<close>. A dictionary that the code only
  is a map from its keys or, where its producer always fills the same keys, a
  record; a dictionary the code builds is a record with one field per key. An uncaught
  Python exception is the \<open>Inl\<close> branch of a sum.
\<close>

datatype error = KeyError string | ValueError string

subsection \<open>evaluate_model.py\<close>

text \<open>The dictionary \<open>checks\<close> built by \<open>check_model_thresholds\<close>.\<close>

record threshold_checks =
  accuracy_check :: bool
  f1_check :: bool
  accuracy_value :: real
  f1_value :: real
  accuracy_threshold :: real
  f1_threshold :: real
  all_checks_passed :: bool

text \<open>\<open>d[k]\<close> on a dictionary: a missing key raises \<open>KeyError\<close>.\<close>

definition getitem :: "(string \<rightharpoonup> 'v) \<Rightarrow> string \<Rightarrow> error + 'v" where
  "getitem d k = (case d k of None \<Rightarrow> Inl (KeyError k) | Some v \<Rightarrow> Inr v)"

text \<open>Python's builtin \<open>all\<close> on a list of booleans.\<close>

fun py_all :: "bool list \<Rightarrow> bool" where
  "py_all [] = True"
| "py_all (b # bs) = (if b then py_all bs else False)"

text \<open>
  \<open>check_model_thresholds\<close> (evaluate_model.py, lines 173 to 210). The dictionary literal
  reads \<open>evaluation_results["accuracy"]\<close> first and \<open>evaluation_results["f1_score"]\<close>
  second; \<open>all_checks_passed\<close> is first set to \<open>True\<close> and then overwritten. The call to
  the logger has no effect on the result.
\<close>

definition check_model_thresholds ::
  "(string \<rightharpoonup> real) \<Rightarrow> real \<Rightarrow> real \<Rightarrow> error + threshold_checks" where
  "check_model_thresholds evaluation_results accuracy_thr f1_thr =
     (case getitem evaluation_results ''accuracy'' of
        Inl e \<Rightarrow> Inl e
      | Inr accuracy \<Rightarrow>
          (case getitem evaluation_results ''f1_score'' of
             Inl e \<Rightarrow> Inl e
           | Inr f1 \<Rightarrow>
               (let checks = \<lparr> accuracy_check = (accuracy \<ge> accuracy_thr),
                               f1_check = (f1 \<ge> f1_thr),
                               accuracy_value = accuracy,
                               f1_value = f1,
                               accuracy_threshold = accuracy_thr,
                               f1_threshold = f1_thr,
                               all_checks_passed = True \<rparr>
                in Inr (checks \<lparr> all_checks_passed :=
                                   py_all [accuracy_check checks, f1_check checks] \<rparr>))))"

subsection \<open>monitor_drift.py: the monitoring summary\<close>

text \<open>
  The inputs of \<open>generate_monitoring_summary\<close>, with the keys it reads:
  \<open>data_drift_results\<close> as built by \<open>detect_data_drift\<close>, \<open>test_results\<close> as built by
  \<open>run_drift_tests\<close>, and the optional \<open>prediction_drift\<close> as built by
  \<open>monitor_prediction_drift\<close>.
\<close>

record data_drift_results =
  dataset_drift_detected :: bool
  dataset_drift_score :: real
  n_features_drifted :: int

record test_results =
  total_tests :: int
  passed_tests :: int
  success_rate :: real

record prediction_drift_results =
  kl_divergence :: real
  chi2_statistic :: real
  p_value :: "real option"
  drift_detected :: bool
  current_distribution :: "(int \<times> real) list"
  reference_distribution :: "(int \<times> real) list"

text \<open>The nested dictionaries of the summary and the summary itself.\<close>

record data_drift_entry =
  detected :: bool
  score :: real
  features_affected :: int

record test_summary_entry =
  summary_total_tests :: int
  passed :: int
  summary_success_rate :: real

record prediction_drift_entry =
  prediction_detected :: bool
  prediction_kl_divergence :: real

record monitoring_summary =
  monitoring_timestamp :: string
  overall_status :: string
  drift_severity :: string
  data_drift :: data_drift_entry
  test_summary :: test_summary_entry
  recommendations :: "string list"
  next_check :: string
  prediction_drift :: "prediction_drift_entry option"

text \<open>Lines 286 to 294: the severity starts as \<open>"none"\<close> and is overwritten under drift.\<close>

definition severity_of :: "data_drift_results \<Rightarrow> string" where
  "severity_of data_drift_results =
     (let drift_severity = ''none''
      in if dataset_drift_detected data_drift_results then
           (if dataset_drift_score data_drift_results > 0.7 then ''high''
            else if dataset_drift_score data_drift_results > 0.5 then ''medium''
            else ''low'')
         else drift_severity)"

text \<open>
  Lines 296 to 312: the list starts empty and each rule appends to it in turn. A
  supplied \<open>prediction_drift\<close> dictionary is truthy, since it has keys.
\<close>

definition append_if :: "bool \<Rightarrow> string \<Rightarrow> string list \<Rightarrow> string list" where
  "append_if c s recs = (if c then recs @ [s] else recs)"

definition recommendations_of ::
  "string \<Rightarrow> data_drift_results \<Rightarrow> test_results \<Rightarrow> prediction_drift_results option
     \<Rightarrow> string list" where
  "recommendations_of severity data_drift_results test_res prediction =
     (let recs0 = [];
          recs1 = append_if (severity \<in> set [''medium'', ''high''])
                    ''Consider retraining the model with recent data'' recs0;
          recs2 = append_if (n_features_drifted data_drift_results > 2)
                    ''Multiple features showing drift - investigate data pipeline'' recs1;
          recs3 = append_if (success_rate test_res < 0.8)
                    ''Drift tests failing - immediate attention required'' recs2;
          recs4 = append_if (case prediction of None \<Rightarrow> False | Some p \<Rightarrow> drift_detected p)
                    ''Prediction distribution shifted - monitor model performance'' recs3
      in recs4)"

text \<open>
  \<open>generate_monitoring_summary\<close> (lines 269 to 339). The first argument is what
  \<open>datetime.now().isoformat()\<close> returns at the call: the clock is not among the
  function's arguments in the source, and is made explicit here.
\<close>

definition generate_monitoring_summary ::
  "string \<Rightarrow> data_drift_results \<Rightarrow> test_results \<Rightarrow> prediction_drift_results option
     \<Rightarrow> monitoring_summary" where
  "generate_monitoring_summary now data_drift_results test_res prediction =
     (let severity = severity_of data_drift_results;
          recs = recommendations_of severity data_drift_results test_res prediction;
          summary = \<lparr> monitoring_timestamp = now,
                      overall_status =
                        (if severity \<in> set [''medium'', ''high''] then ''alert'' else ''ok''),
                      drift_severity = severity,
                      data_drift = \<lparr> detected = dataset_drift_detected data_drift_results,
                                      score = dataset_drift_score data_drift_results,
                                      features_affected = n_features_drifted data_drift_results \<rparr>,
                      test_summary = \<lparr> summary_total_tests = total_tests test_res,
                                        passed = passed_tests test_res,
                                        summary_success_rate = success_rate test_res \<rparr>,
                      recommendations = recs,
                      next_check = ''Monitor daily for the next week'',
                      prediction_drift = None \<rparr>
      in case prediction of
           None \<Rightarrow> summary
         | Some p \<Rightarrow> summary \<lparr> prediction_drift :=
                                  Some \<lparr> prediction_detected = drift_detected p,
                                         prediction_kl_divergence = kl_divergence p \<rparr> \<rparr>)"

subsection \<open>monitor_drift.py: prediction drift\<close>

text \<open>
  The prediction column of a data frame is the list of its labels. The pandas expression
  \<open>value_counts(normalize=True).sort_index()\<close> gives a series with one entry per
  observed label, holding the label's relative frequency; \<open>value_counts\<close> orders the
  entries by count and \<open>sort_index\<close> reorders them by label, so the series is the
  frequencies of the observed labels in ascending label order.
\<close>

type_synonym series = "(int \<times> real) list"

definition value_counts_sort_index :: "int list \<Rightarrow> series" where
  "value_counts_sort_index xs =
     map (\<lambda>l. (l, real (count_list xs l) / real (length xs))) (sort (remdups xs))"

text \<open>\<open>Series.get(key, default)\<close>, \<open>Series.values\<close> and the index of a series.\<close>

definition series_get :: "series \<Rightarrow> int \<Rightarrow> real \<Rightarrow> real" where
  "series_get s k dflt = (case map_of s k of None \<Rightarrow> dflt | Some v \<Rightarrow> v)"

definition series_values :: "series \<Rightarrow> real list" where
  "series_values s = map snd s"

definition series_index :: "series \<Rightarrow> int list" where
  "series_index s = map fst s"

text \<open>
  Lines 242 to 247: the loop over \<open>range(3)\<close> that accumulates the KL divergence, with
  the default \<open>1e-10\<close> for a label the series does not hold.
\<close>

definition kl_step :: "series \<Rightarrow> series \<Rightarrow> int \<Rightarrow> real \<Rightarrow> real" where
  "kl_step reference_dist current_dist i kl =
     (let p = series_get reference_dist i (1 / 10 ^ 10);
          q = series_get current_dist i (1 / 10 ^ 10)
      in kl + p * ln (p / q))"

definition kl_loop :: "series \<Rightarrow> series \<Rightarrow> real" where
  "kl_loop reference_dist current_dist = fold (kl_step reference_dist current_dist) [0, 1, 2] 0"

text \<open>
  \<open>scipy.stats.chisquare(f_obs, f_exp)\<close> on one-dimensional arrays, as the library
  computes it in the releases that run under the Python this code needs (its signatures
  use \<open>X | None\<close>): the two shapes are broadcast against each other (a length of one stretches
  to the other length, any other difference raises \<open>ValueError\<close>); the sums of the two
  broadcast arrays must agree to a relative tolerance of \<open>1e-8\<close>, else \<open>ValueError\<close>
  (a \<open>0/0\<close> there is NaN and compares false, a positive number over zero is infinite);
  the statistic is the sum of \<open>(f_obs - f_exp)**2 / f_exp\<close>, and the p-value is the
  survival function of the chi-square distribution with one degree of freedom less than
  the number of terms, which is NaN (here \<open>None\<close>) when that number of degrees is not
  positive. The survival function \<open>chi2_sf\<close> at positive degrees of freedom is a
  parameter. Division by an expected frequency of zero gives an infinity or NaN in numpy;
  the expected frequencies passed below are positive (lemma \<open>value_counts_values_pos\<close>).
\<close>

definition broadcast_shapes :: "nat \<Rightarrow> nat \<Rightarrow> error + nat" where
  "broadcast_shapes n1 n2 =
     (if n1 = 1 then Inr n2
      else if n2 = 1 \<or> n1 = n2 then Inr n1
      else Inl (ValueError ''shapes could not be broadcast together''))"

definition broadcast_to :: "real list \<Rightarrow> nat \<Rightarrow> real list" where
  "broadcast_to xs n = (case xs of [x] \<Rightarrow> replicate n x | _ \<Rightarrow> xs)"

definition sums_disagree :: "real \<Rightarrow> real \<Rightarrow> bool" where
  "sums_disagree f_obs_sum f_exp_sum =
     (let d = \<bar>f_obs_sum - f_exp_sum\<bar>; m = min f_obs_sum f_exp_sum
      in if m = 0 then d > 0 else d / m > 1 / 10 ^ 8)"

definition chisquare_terms :: "real list \<Rightarrow> real list \<Rightarrow> real list" where
  "chisquare_terms f_obs f_exp = map (\<lambda>(ob, ex). (ob - ex) ^ 2 / ex) (zip f_obs f_exp)"

definition chisquare ::
  "(real \<Rightarrow> int \<Rightarrow> real) \<Rightarrow> real list \<Rightarrow> real list \<Rightarrow> error + real \<times> real option" where
  "chisquare chi2_sf f_obs f_exp =
     (case broadcast_shapes (length f_obs) (length f_exp) of
        Inl e \<Rightarrow> Inl e
      | Inr n \<Rightarrow>
          (let f_obs_b = broadcast_to f_obs n;
               f_exp_b = broadcast_to f_exp n
           in if sums_disagree (sum_list f_obs_b) (sum_list f_exp_b)
              then Inl (ValueError ''sums of observed and expected frequencies disagree'')
              else (let terms = chisquare_terms f_obs_b f_exp_b;
                        stat = sum_list terms;
                        df = int (length terms) - 1
                    in Inr (stat, if df \<le> 0 then None else Some (chi2_sf stat df)))))"

text \<open>
  \<open>monitor_prediction_drift\<close> (lines 207 to 267). Besides the two prediction columns
  the model takes what the source reads from outside its arguments: the survival
  function behind the p-value, the state of numpy's global generator as the function
  \<open>random_choice\<close> from a size to the sample that \<open>np.random.choice([0, 1, 2], size)\<close>
  returns, and \<open>n_samples\<close>, the number of rows of the monitor's reference data.
\<close>

definition monitor_prediction_drift ::
  "(real \<Rightarrow> int \<Rightarrow> real) \<Rightarrow> (nat \<Rightarrow> int list) \<Rightarrow> nat \<Rightarrow> int list \<Rightarrow> int list option
     \<Rightarrow> error + prediction_drift_results" where
  "monitor_prediction_drift chi2_sf random_choice n_samples current_predictions
       reference_predictions =
     (let reference = (case reference_predictions of
                         None \<Rightarrow> random_choice n_samples
                       | Some r \<Rightarrow> r);
          current_dist = value_counts_sort_index current_predictions;
          reference_dist = value_counts_sort_index reference;
          kl = kl_loop reference_dist current_dist
      in case chisquare chi2_sf (series_values current_dist) (series_values reference_dist) of
           Inl e \<Rightarrow> Inl e
         | Inr (chi2_stat, p) \<Rightarrow>
             Inr \<lparr> kl_divergence = kl,
                   chi2_statistic = chi2_stat,
                   p_value = p,
                   drift_detected = (case p of None \<Rightarrow> False | Some v \<Rightarrow> v < 0.05),
                   current_distribution = current_dist,
                   reference_distribution = reference_dist \<rparr>)"

subsection \<open>Notions used to state the properties\<close>

text \<open>
  The relative frequency of a label in a prediction column, and the same with the floor
  \<open>1e-10\<close> for a label that does not occur: the distribution over the label space
  \<open>0, 1, 2\<close> that the KL divergence is stated over.
\<close>

definition frequency :: "int list \<Rightarrow> int \<Rightarrow> real" where
  "frequency xs l = real (count_list xs l) / real (length xs)"

definition floored_frequency :: "int list \<Rightarrow> int \<Rightarrow> real" where
  "floored_frequency xs l =
     (if count_list xs l = 0 then 1 / 10 ^ 10 else frequency xs l)"

text \<open>
  The goodness-of-fit statistic as the specification words it: over the classes of the
  reference, the observed current count of each class against the expected count, which
  is the class's reference proportion times the number of current predictions.
\<close>

definition spec_chi2_counts :: "int list \<Rightarrow> int list \<Rightarrow> real" where
  "spec_chi2_counts current reference =
     (\<Sum>l\<leftarrow>sort (remdups reference).
        (real (count_list current l)
           - real (length current) * (real (count_list reference l) / real (length reference))) ^ 2
        / (real (length current) * (real (count_list reference l) / real (length reference))))"

text \<open>
  The pairs of labels whose frequencies stand at the same position of the two arrays
  handed to \<open>chisquare\<close>, and the test that every pair is one label twice.
\<close>

definition chisquare_label_pairs :: "int list \<Rightarrow> int list \<Rightarrow> (int \<times> int) list" where
  "chisquare_label_pairs current reference =
     zip (series_index (value_counts_sort_index current))
         (series_index (value_counts_sort_index reference))"

definition like_with_like :: "(int \<times> int) list \<Rightarrow> bool" where
  "like_with_like ps = list_all (\<lambda>(a, b). a = b) ps"

text \<open>
  Two states of the generator, for runs that differ in nothing else, two readings of
  the clock, and the survival function of the chi-square distribution at two degrees of
  freedom, \<open>exp (- x / 2)\<close>, which is the one a comparison of three classes uses.
\<close>

definition choice_all_zero :: "nat \<Rightarrow> int list" where
  "choice_all_zero n = replicate n 0"

definition choice_all_one :: "nat \<Rightarrow> int list" where
  "choice_all_one n = replicate n 1"

definition clock_reading_a :: string where
  "clock_reading_a = ''2024-05-01T09:00:00.000000''"

definition clock_reading_b :: string where
  "clock_reading_b = ''2024-05-01T09:00:00.000001''"

definition chi2_sf_two :: "real \<Rightarrow> int \<Rightarrow> real" where
  "chi2_sf_two x df = exp (- x / 2)"

text \<open>
  A balanced reference column and a current column of ten predictions, eight of them of
  class \<open>0\<close>.
\<close>

definition balanced_reference :: "int list" where
  "balanced_reference = [0, 1, 2]"

definition skewed_current :: "int list" where
  "skewed_current = [0, 0, 0, 0, 0, 0, 0, 0, 1, 2]"

text \<open>What a call hands back to its caller: nothing when it raised.\<close>

definition returned :: "error + 'a \<Rightarrow> 'a option" where
  "returned x = (case x of Inl e \<Rightarrow> None | Inr r \<Rightarrow> Some r)"

section \<open>The threshold check\<close>

lemma getitem_Some: "d k = Some v \<Longrightarrow> getitem d k = Inr v"
  by (simp add: getitem_def)

text \<open>
  C1. For every metrics input that carries an accuracy and an F1 score, and every pair of
  thresholds, the check returns a result whose \<open>all_checks_passed\<close> is the conjunction of
  \<open>accuracy \<ge> accuracy_threshold\<close> and \<open>f1_score \<ge> f1_threshold\<close>; each single check is
  the \<open>\<ge>\<close> comparison, so a metric equal to its threshold passes its check.
\<close>

theorem check_model_thresholds_conjunction:
  assumes "evaluation_results ''accuracy'' = Some a"
    and "evaluation_results ''f1_score'' = Some f"
  shows "\<exists>r. check_model_thresholds evaluation_results ta tf = Inr r
           \<and> all_checks_passed r = (a \<ge> ta \<and> f \<ge> tf)
           \<and> accuracy_check r = (a \<ge> ta)
           \<and> f1_check r = (f \<ge> tf)
           \<and> (a = ta \<longrightarrow> accuracy_check r)
           \<and> (f = tf \<longrightarrow> f1_check r)"
  using assms
  by (simp add: check_model_thresholds_def getitem_Some Let_def)

theorem check_model_thresholds_conjunction_witness:
  "\<exists>r. check_model_thresholds [''accuracy'' \<mapsto> 0.85, ''f1_score'' \<mapsto> 0.9] 0.85 0.85 = Inr r
         \<and> all_checks_passed r \<and> accuracy_check r \<and> f1_check r"
  using check_model_thresholds_conjunction
    [of "[''accuracy'' \<mapsto> 0.85, ''f1_score'' \<mapsto> 0.9]" "0.85" "0.9" "0.85" "0.85"]
  by auto

text \<open>
  C7, as the code has it. The function tests no range and raises no validation error: it
  returns a result exactly when the metrics input holds an accuracy and an F1 score,
  whether or not they lie in \<open>[0, 1]\<close>; on such inputs it is total.
\<close>

theorem check_model_thresholds_total:
  "(\<exists>r. check_model_thresholds evaluation_results ta tf = Inr r)
     = (\<exists>a f. evaluation_results ''accuracy'' = Some a \<and> evaluation_results ''f1_score'' = Some f)"
  by (auto simp: check_model_thresholds_def getitem_def Let_def split: option.splits)

theorem check_model_thresholds_total_witness:
  "\<exists>r. check_model_thresholds [''accuracy'' \<mapsto> - 3, ''f1_score'' \<mapsto> 7] 0.8 0.8 = Inr r"
  using check_model_thresholds_total [of "[''accuracy'' \<mapsto> - 3, ''f1_score'' \<mapsto> 7]" "0.8" "0.8"]
  by simp

text \<open>
  C7, as the specification words it, fails: with an accuracy of \<open>1.5\<close> the function
  returns a result, and both checks pass.
\<close>

theorem check_model_thresholds_out_of_range_counterexample:
  "check_model_thresholds [''accuracy'' \<mapsto> 1.5, ''f1_score'' \<mapsto> 0.9] 0.8 0.8 =
     Inr \<lparr> accuracy_check = True, f1_check = True, accuracy_value = 1.5, f1_value = 0.9,
           accuracy_threshold = 0.8, f1_threshold = 0.8, all_checks_passed = True \<rparr>"
  by (simp add: check_model_thresholds_def getitem_def)

section \<open>The monitoring summary\<close>

lemma summary_status: "overall_status (generate_monitoring_summary now d t p) =
   (if severity_of d \<in> set [''medium'', ''high''] then ''alert'' else ''ok'')"
  by (cases p) (simp_all add: generate_monitoring_summary_def Let_def)

lemma summary_severity: "drift_severity (generate_monitoring_summary now d t p) = severity_of d"
  by (cases p) (simp_all add: generate_monitoring_summary_def Let_def)

lemma summary_recommendations: "recommendations (generate_monitoring_summary now d t p) =
   recommendations_of (severity_of d) d t p"
  by (cases p) (simp_all add: generate_monitoring_summary_def Let_def)

text \<open>
  C2. The summary's \<open>drift_severity\<close> is \<open>none\<close> when no dataset drift was detected,
  whatever the score; under drift it is \<open>high\<close> for a score above \<open>0.7\<close>, \<open>medium\<close>
  for a score above \<open>0.5\<close> and at most \<open>0.7\<close>, and \<open>low\<close> for a score of at most
  \<open>0.5\<close>.
\<close>

theorem drift_severity_rules:
  "(\<not> dataset_drift_detected d \<longrightarrow>
      drift_severity (generate_monitoring_summary now d t p) = ''none'')
   \<and> (dataset_drift_detected d \<and> dataset_drift_score d > 0.7 \<longrightarrow>
      drift_severity (generate_monitoring_summary now d t p) = ''high'')
   \<and> (dataset_drift_detected d \<and> 0.5 < dataset_drift_score d \<and> dataset_drift_score d \<le> 0.7 \<longrightarrow>
      drift_severity (generate_monitoring_summary now d t p) = ''medium'')
   \<and> (dataset_drift_detected d \<and> dataset_drift_score d \<le> 0.5 \<longrightarrow>
      drift_severity (generate_monitoring_summary now d t p) = ''low'')"
  by (cases p) (simp_all add: generate_monitoring_summary_def severity_of_def Let_def)

theorem drift_severity_rules_witness:
  "drift_severity (generate_monitoring_summary ''t''
       \<lparr> dataset_drift_detected = False, dataset_drift_score = 0.9, n_features_drifted = 4 \<rparr>
       \<lparr> total_tests = 5, passed_tests = 5, success_rate = 1 \<rparr> None) = ''none''
   \<and> drift_severity (generate_monitoring_summary ''t''
       \<lparr> dataset_drift_detected = True, dataset_drift_score = 0.75, n_features_drifted = 3 \<rparr>
       \<lparr> total_tests = 5, passed_tests = 5, success_rate = 1 \<rparr> None) = ''high''
   \<and> drift_severity (generate_monitoring_summary ''t''
       \<lparr> dataset_drift_detected = True, dataset_drift_score = 0.7, n_features_drifted = 3 \<rparr>
       \<lparr> total_tests = 5, passed_tests = 5, success_rate = 1 \<rparr> None) = ''medium''
   \<and> drift_severity (generate_monitoring_summary ''t''
       \<lparr> dataset_drift_detected = True, dataset_drift_score = 0.5, n_features_drifted = 2 \<rparr>
       \<lparr> total_tests = 5, passed_tests = 5, success_rate = 1 \<rparr> None) = ''low''"
  using
    drift_severity_rules [of "\<lparr> dataset_drift_detected = False, dataset_drift_score = 0.9, n_features_drifted = 4 \<rparr>"
       "''t''" "\<lparr> total_tests = 5, passed_tests = 5, success_rate = 1 \<rparr>" None]
    drift_severity_rules [of "\<lparr> dataset_drift_detected = True, dataset_drift_score = 0.75, n_features_drifted = 3 \<rparr>"
       "''t''" "\<lparr> total_tests = 5, passed_tests = 5, success_rate = 1 \<rparr>" None]
    drift_severity_rules [of "\<lparr> dataset_drift_detected = True, dataset_drift_score = 0.7, n_features_drifted = 3 \<rparr>"
       "''t''" "\<lparr> total_tests = 5, passed_tests = 5, success_rate = 1 \<rparr>" None]
    drift_severity_rules [of "\<lparr> dataset_drift_detected = True, dataset_drift_score = 0.5, n_features_drifted = 2 \<rparr>"
       "''t''" "\<lparr> total_tests = 5, passed_tests = 5, success_rate = 1 \<rparr>" None]
  by simp

text \<open>
  C8. The summary's \<open>overall_status\<close> is \<open>alert\<close> exactly when the severity is
  \<open>medium\<close> or \<open>high\<close>, and \<open>ok\<close> in every other case; so it is \<open>alert\<close> exactly
  under detected drift with a score above \<open>0.5\<close>, and \<open>ok\<close> at severity \<open>low\<close>.
\<close>

theorem overall_status_alert_iff:
  "(overall_status (generate_monitoring_summary now d t p) = ''alert'')
     = (drift_severity (generate_monitoring_summary now d t p) = ''medium''
        \<or> drift_severity (generate_monitoring_summary now d t p) = ''high'')
   \<and> (overall_status (generate_monitoring_summary now d t p) = ''ok'')
     = (drift_severity (generate_monitoring_summary now d t p) \<noteq> ''medium''
        \<and> drift_severity (generate_monitoring_summary now d t p) \<noteq> ''high'')
   \<and> (overall_status (generate_monitoring_summary now d t p) = ''alert'')
     = (dataset_drift_detected d \<and> dataset_drift_score d > 0.5)"
  by (simp add: summary_status summary_severity severity_of_def)

theorem overall_status_alert_iff_witness:
  "overall_status (generate_monitoring_summary clock_reading_a
       \<lparr> dataset_drift_detected = True, dataset_drift_score = 0.5, n_features_drifted = 1 \<rparr>
       \<lparr> total_tests = 4, passed_tests = 4, success_rate = 1 \<rparr> None) = ''ok''
   \<and> overall_status (generate_monitoring_summary clock_reading_a
       \<lparr> dataset_drift_detected = True, dataset_drift_score = 0.6, n_features_drifted = 1 \<rparr>
       \<lparr> total_tests = 4, passed_tests = 4, success_rate = 1 \<rparr> None) = ''alert''"
  using
    overall_status_alert_iff [of clock_reading_a
       "\<lparr> dataset_drift_detected = True, dataset_drift_score = 0.5, n_features_drifted = 1 \<rparr>"
       "\<lparr> total_tests = 4, passed_tests = 4, success_rate = 1 \<rparr>" None]
    overall_status_alert_iff [of clock_reading_a
       "\<lparr> dataset_drift_detected = True, dataset_drift_score = 0.6, n_features_drifted = 1 \<rparr>"
       "\<lparr> total_tests = 4, passed_tests = 4, success_rate = 1 \<rparr>" None]
  by (simp add: summary_severity severity_of_def)

text \<open>
  C4. The recommendations are appended in a fixed order, one per rule that fires: the
  retraining entry when the severity is \<open>medium\<close> or \<open>high\<close>, the pipeline entry when
  more than two features drifted, the immediate-attention entry when the success rate of
  the test suite is below \<open>0.8\<close>, and the monitor-performance entry when a prediction
  drift was supplied and detected. At a score of \<open>0.75\<close> with drift detected, three
  drifted features, a success rate of \<open>0.9\<close> and no prediction drift, the list is the
  retraining entry followed by the pipeline entry.
\<close>

theorem recommendations_order:
  "recommendations (generate_monitoring_summary now d t p) =
     (if drift_severity (generate_monitoring_summary now d t p) = ''medium''
         \<or> drift_severity (generate_monitoring_summary now d t p) = ''high''
      then [''Consider retraining the model with recent data''] else [])
     @ (if n_features_drifted d > 2
        then [''Multiple features showing drift - investigate data pipeline''] else [])
     @ (if success_rate t < 0.8
        then [''Drift tests failing - immediate attention required''] else [])
     @ (if \<exists>pd. p = Some pd \<and> drift_detected pd
        then [''Prediction distribution shifted - monitor model performance''] else [])
   \<and> recommendations (generate_monitoring_summary now
         \<lparr> dataset_drift_detected = True, dataset_drift_score = 0.75, n_features_drifted = 3 \<rparr>
         \<lparr> total_tests = tt, passed_tests = pt, success_rate = 0.9 \<rparr> None)
       = [''Consider retraining the model with recent data'',
          ''Multiple features showing drift - investigate data pipeline'']"
  by (cases p) (simp_all add: summary_recommendations summary_severity recommendations_of_def append_if_def severity_of_def Let_def)

theorem recommendations_order_witness:
  "recommendations (generate_monitoring_summary clock_reading_a
       \<lparr> dataset_drift_detected = True, dataset_drift_score = 0.6, n_features_drifted = 1 \<rparr>
       \<lparr> total_tests = 4, passed_tests = 2, success_rate = 0.5 \<rparr>
       (Some \<lparr> kl_divergence = 1, chi2_statistic = 9, p_value = Some 0.01, drift_detected = True,
               current_distribution = [(0, 1)], reference_distribution = [(1, 1)] \<rparr>))
     = [''Consider retraining the model with recent data'',
        ''Drift tests failing - immediate attention required'',
        ''Prediction distribution shifted - monitor model performance'']"
  using recommendations_order [of clock_reading_a
       "\<lparr> dataset_drift_detected = True, dataset_drift_score = 0.6, n_features_drifted = 1 \<rparr>"
       "\<lparr> total_tests = 4, passed_tests = 2, success_rate = 0.5 \<rparr>"
       "Some \<lparr> kl_divergence = 1, chi2_statistic = 9, p_value = Some 0.01, drift_detected = True,
               current_distribution = [(0, 1)], reference_distribution = [(1, 1)] \<rparr>"]
  by (simp add: summary_severity severity_of_def)

section \<open>Prediction drift\<close>

subsection \<open>The frequency series\<close>

lemma value_counts_index: "series_index (value_counts_sort_index xs) = sort (remdups xs)"
  by (simp add: series_index_def value_counts_sort_index_def comp_def)

lemma length_value_counts: "length (value_counts_sort_index xs) = card (set xs)"
  by (simp add: value_counts_sort_index_def length_remdups_card_conv)

lemma length_values: "length (series_values (value_counts_sort_index xs)) = card (set xs)"
  by (simp add: series_values_def length_value_counts)

lemma count_list_pos: "l \<in> set xs \<Longrightarrow> 0 < count_list xs l"
  using count_list_0_iff [of xs l] by simp

lemma value_counts_values_pos:
  assumes "v \<in> set (series_values (value_counts_sort_index xs))"
  shows "0 < v"
proof -
  from assms obtain l where l: "l \<in> set xs" and v: "v = real (count_list xs l) / real (length xs)"
    by (auto simp: series_values_def value_counts_sort_index_def)
  from l have "0 < count_list xs l" by (rule count_list_pos)
  moreover from l have "0 < length xs" by (cases xs) auto
  ultimately show ?thesis using v by simp
qed

lemma sum_value_counts:
  assumes "xs \<noteq> []"
  shows "sum_list (series_values (value_counts_sort_index xs)) = 1"
proof -
  have "sum_list (series_values (value_counts_sort_index xs))
          = (\<Sum>l\<leftarrow>sort (remdups xs). real (count_list xs l) / real (length xs))"
    by (simp add: series_values_def value_counts_sort_index_def comp_def)
  also have "\<dots> = (\<Sum>l\<in>set xs. real (count_list xs l) / real (length xs))"
    by (subst sum_list_distinct_conv_sum_set) simp_all
  also have "\<dots> = real (\<Sum>l\<in>set xs. count_list xs l) / real (length xs)"
    by (simp add: sum_divide_distrib)
  also have "(\<Sum>l\<in>set xs. count_list xs l) = length xs"
    by (rule sum_count_set) simp_all
  finally show ?thesis using assms by simp
qed

lemma sum_value_counts_Nil: "sum_list (series_values (value_counts_sort_index [])) = 0"
  by (simp add: series_values_def value_counts_sort_index_def)

lemma map_of_graph:
  "map_of (map (\<lambda>l. (l, f l)) ls) k = (if k \<in> set ls then Some (f k) else None)"
  by (induction ls) auto

lemma series_get_value_counts:
  "series_get (value_counts_sort_index xs) l d =
     (if count_list xs l = 0 then d else frequency xs l)"
  by (simp add: series_get_def value_counts_sort_index_def map_of_graph count_list_0_iff frequency_def)

lemma kl_loop_sum:
  "kl_loop (value_counts_sort_index reference) (value_counts_sort_index current) =
     (\<Sum>i\<leftarrow>[0, 1, 2]. floored_frequency reference i
         * ln (floored_frequency reference i / floored_frequency current i))"
  by (simp add: kl_loop_def kl_step_def series_get_value_counts floored_frequency_def Let_def)

lemma floored_frequency_pos: "0 < floored_frequency xs l"
proof (cases "count_list xs l = 0")
  case True
  then show ?thesis by (simp add: floored_frequency_def)
next
  case False
  then have "l \<in> set xs" by (simp add: count_list_0_iff)
  then have "0 < length xs" by (cases xs) auto
  with False show ?thesis by (simp add: floored_frequency_def frequency_def)
qed

subsection \<open>The chi-square call\<close>

lemma broadcast_to_same: "broadcast_to xs (length xs) = xs"
  by (cases xs rule: list.exhaust; cases "tl xs") (auto simp: broadcast_to_def split: list.splits)

lemma sums_disagree_same: "\<not> sums_disagree s s"
  by (simp add: sums_disagree_def)

lemma chisquare_same_length:
  assumes "length f_obs = length f_exp" and "sum_list f_obs = sum_list f_exp"
  shows "chisquare sf f_obs f_exp =
           Inr (sum_list (chisquare_terms f_obs f_exp),
                if int (length f_obs) - 1 \<le> 0 then None
                else Some (sf (sum_list (chisquare_terms f_obs f_exp)) (int (length f_obs) - 1)))"
proof -
  have b: "broadcast_shapes (length f_obs) (length f_exp) = Inr (length f_obs)"
    using assms(1) by (simp add: broadcast_shapes_def)
  have o: "broadcast_to f_obs (length f_obs) = f_obs" by (rule broadcast_to_same)
  have e: "broadcast_to f_exp (length f_obs) = f_exp"
    using broadcast_to_same [of f_exp] assms(1) by simp
  have l: "length (chisquare_terms f_obs f_exp) = length f_obs"
    using assms(1) by (simp add: chisquare_terms_def)
  show ?thesis
    by (simp add: chisquare_def b o e assms(2) sums_disagree_same l Let_def)
qed

lemma mpd_unfold:
  "monitor_prediction_drift sf ch n current (Some reference) =
     (case chisquare sf (series_values (value_counts_sort_index current))
                        (series_values (value_counts_sort_index reference)) of
        Inl e \<Rightarrow> Inl e
      | Inr (chi2_stat, p) \<Rightarrow>
          Inr \<lparr> kl_divergence = kl_loop (value_counts_sort_index reference)
                                          (value_counts_sort_index current),
                chi2_statistic = chi2_stat,
                p_value = p,
                drift_detected = (case p of None \<Rightarrow> False | Some v \<Rightarrow> v < 0.05),
                current_distribution = value_counts_sort_index current,
                reference_distribution = value_counts_sort_index reference \<rparr>)"
  by (simp add: monitor_prediction_drift_def Let_def)

lemma sum_values_cases:
  "sum_list (series_values (value_counts_sort_index xs)) = (if xs = [] then 0 else 1)"
  by (simp add: sum_value_counts sum_value_counts_Nil)

lemma values_Nil_iff: "series_values (value_counts_sort_index xs) = [] \<longleftrightarrow> xs = []"
  using length_values [of xs] by (metis card_0_eq List.finite_set length_0_conv set_empty card.empty)

text \<open>
  On arrays as \<open>value_counts\<close> produces them, empty or summing to one, the call returns
  exactly when the lengths agree or one array is empty and the other has one entry.
\<close>

lemma chisquare_completes_iff:
  assumes a: "sum_list a = (if a = [] then 0 else 1)"
    and b: "sum_list b = (if b = [] then 0 else 1)"
  shows "(\<exists>r. chisquare sf a b = Inr r)
           = (length a = length b \<or> (a = [] \<and> length b = 1) \<or> (length a = 1 \<and> b = []))"
proof (cases "length a = length b")
  case True
  have "sum_list a = sum_list b" using a b True by auto
  with True show ?thesis by (simp add: chisquare_same_length)
next
  case ne: False
  show ?thesis
  proof (cases "length a = 1")
    case True
    then obtain x where ax: "a = [x]" by (cases a) auto
    with a have x: "x = 1" by simp
    have sh: "broadcast_shapes (length a) (length b) = Inr (length b)"
      using True by (simp add: broadcast_shapes_def)
    have ba: "broadcast_to a (length b) = replicate (length b) 1"
      using ax x by (simp add: broadcast_to_def)
    have bb: "broadcast_to b (length b) = b" by (rule broadcast_to_same)
    have sa: "sum_list (replicate (length b) (1::real)) = real (length b)"
      by (simp add: sum_list_replicate)
    show ?thesis
    proof (cases "b = []")
      case True
      then show ?thesis using ax
        by (simp add: chisquare_def broadcast_shapes_def broadcast_to_def sums_disagree_def
              chisquare_terms_def)
    next
      case False
      then have "length b \<noteq> 0" by simp
      with ne True have "2 \<le> length b" by arith
      then have "sums_disagree (real (length b)) 1"
        by (simp add: sums_disagree_def)
      moreover have "sum_list b = 1" using b False by simp
      ultimately have "chisquare sf a b =
          Inl (ValueError ''sums of observed and expected frequencies disagree'')"
        by (simp add: chisquare_def sh ba bb sa)
      then show ?thesis using ne True False by simp
    qed
  next
    case a1: False
    show ?thesis
    proof (cases "length b = 1")
      case True
      then obtain y where by1: "b = [y]" by (cases b) auto
      with b have y: "y = 1" by simp
      have sh: "broadcast_shapes (length a) (length b) = Inr (length a)"
        using True a1 by (simp add: broadcast_shapes_def)
      have ba: "broadcast_to a (length a) = a" by (rule broadcast_to_same)
      have bb: "broadcast_to b (length a) = replicate (length a) 1"
        using by1 y by (simp add: broadcast_to_def)
      have sb: "sum_list (replicate (length a) (1::real)) = real (length a)"
        by (simp add: sum_list_replicate)
      show ?thesis
      proof (cases "a = []")
        case True
        then show ?thesis using by1
          by (simp add: chisquare_def broadcast_shapes_def broadcast_to_def sums_disagree_def
                chisquare_terms_def)
      next
        case False
        then have "length a \<noteq> 0" by simp
        with a1 have "2 \<le> length a" by arith
        then have "sums_disagree 1 (real (length a))"
          by (simp add: sums_disagree_def)
        moreover have "sum_list a = 1" using a False by simp
        ultimately have "chisquare sf a b =
            Inl (ValueError ''sums of observed and expected frequencies disagree'')"
          by (simp add: chisquare_def sh ba bb sb)
        then show ?thesis using ne a1 False by simp
      qed
    next
      case False
      with a1 ne have "broadcast_shapes (length a) (length b)
                         = Inl (ValueError ''shapes could not be broadcast together'')"
        by (simp add: broadcast_shapes_def)
      then have "chisquare sf a b = Inl (ValueError ''shapes could not be broadcast together'')"
        by (simp add: chisquare_def)
      then show ?thesis using ne a1 False by simp
    qed
  qed
qed

lemma mpd_completes_iff:
  "(\<exists>r. monitor_prediction_drift sf ch n current (Some reference) = Inr r)
     = (card (set current) = card (set reference)
        \<or> (current = [] \<and> card (set reference) = 1)
        \<or> (card (set current) = 1 \<and> reference = []))"
proof -
  have "(\<exists>r. monitor_prediction_drift sf ch n current (Some reference) = Inr r)
          = (\<exists>r. chisquare sf (series_values (value_counts_sort_index current))
                              (series_values (value_counts_sort_index reference)) = Inr r)"
    by (auto simp: mpd_unfold split: sum.splits)
  also have "\<dots> = (card (set current) = card (set reference)
        \<or> (current = [] \<and> card (set reference) = 1)
        \<or> (card (set current) = 1 \<and> reference = []))"
    by (subst chisquare_completes_iff)
       (simp_all add: sum_values_cases values_Nil_iff length_values)
  finally show ?thesis .
qed

lemma values_frequency:
  "series_values (value_counts_sort_index xs) = map (frequency xs) (sort (remdups xs))"
  by (simp add: series_values_def value_counts_sort_index_def frequency_def comp_def)

lemma chisquare_terms_pairs:
  "chisquare_terms (series_values (value_counts_sort_index current))
                   (series_values (value_counts_sort_index reference))
     = map (\<lambda>(a, b). (frequency current a - frequency reference b) ^ 2 / frequency reference b)
           (chisquare_label_pairs current reference)"
  by (simp add: chisquare_terms_def chisquare_label_pairs_def values_frequency value_counts_index
        zip_map_map case_prod_beta)

lemma chisquare_stat:
  assumes a: "sum_list a = (if a = [] then 0 else 1)"
    and b: "sum_list b = (if b = [] then 0 else 1)"
    and r: "chisquare sf a b = Inr (s, p)"
  shows "s = sum_list (chisquare_terms a b)"
proof -
  from r have "\<exists>r. chisquare sf a b = Inr r" by simp
  then consider "length a = length b" | "a = []" "length b = 1" | "length a = 1" "b = []"
    using chisquare_completes_iff [OF a b, of sf] by auto
  then show ?thesis
  proof cases
    case 1
    have "sum_list a = sum_list b" using a b 1 by auto
    with 1 r show ?thesis by (simp add: chisquare_same_length)
  next
    case 2
    then obtain y where "b = [y]" by (cases b) auto
    with 2 r show ?thesis
      by (simp add: chisquare_def broadcast_shapes_def broadcast_to_def sums_disagree_def
            chisquare_terms_def)
  next
    case 3
    then obtain x where "a = [x]" by (cases a) auto
    with 3 r show ?thesis
      by (simp add: chisquare_def broadcast_shapes_def broadcast_to_def sums_disagree_def
            chisquare_terms_def)
  qed
qed

lemma mpd_Inr_fields:
  assumes "monitor_prediction_drift sf ch n current (Some reference) = Inr r"
  shows "kl_divergence r = kl_loop (value_counts_sort_index reference) (value_counts_sort_index current)"
    and "chi2_statistic r = sum_list (chisquare_terms (series_values (value_counts_sort_index current))
                   (series_values (value_counts_sort_index reference)))"
    and "drift_detected r = (case p_value r of None \<Rightarrow> False | Some v \<Rightarrow> v < 0.05)"
    and "current_distribution r = value_counts_sort_index current"
    and "reference_distribution r = value_counts_sort_index reference"
proof -
  from assms obtain s p where
    c: "chisquare sf (series_values (value_counts_sort_index current))
                   (series_values (value_counts_sort_index reference)) = Inr (s, p)"
    and r: "r = \<lparr> kl_divergence = kl_loop (value_counts_sort_index reference)
                                          (value_counts_sort_index current),
                chi2_statistic = s,
                p_value = p,
                drift_detected = (case p of None \<Rightarrow> False | Some v \<Rightarrow> v < 0.05),
                current_distribution = value_counts_sort_index current,
                reference_distribution = value_counts_sort_index reference \<rparr>"
    by (auto simp: mpd_unfold split: sum.splits)
  have s: "s = sum_list (chisquare_terms (series_values (value_counts_sort_index current))
                   (series_values (value_counts_sort_index reference)))"
    by (rule chisquare_stat [OF _ _ c]) (simp_all add: sum_values_cases values_Nil_iff)
  show "kl_divergence r = kl_loop (value_counts_sort_index reference) (value_counts_sort_index current)"
    by (simp add: r)
  show "chi2_statistic r = sum_list (chisquare_terms (series_values (value_counts_sort_index current))
                   (series_values (value_counts_sort_index reference)))"
    using s by (simp add: r)
  show "drift_detected r = (case p_value r of None \<Rightarrow> False | Some v \<Rightarrow> v < 0.05)"
    by (simp add: r)
  show "current_distribution r = value_counts_sort_index current"
    by (simp add: r)
  show "reference_distribution r = value_counts_sort_index reference"
    by (simp add: r)
qed

lemma mpd_same_card:
  "card (set current) = card (set reference) \<Longrightarrow>
     \<exists>r. monitor_prediction_drift sf ch n current (Some reference) = Inr r"
  by (simp add: mpd_completes_iff)

lemma sort_remdups_eq_iff:
  "sort (remdups xs) = sort (remdups ys) \<longleftrightarrow> set xs = set (ys :: int list)"
proof
  assume "sort (remdups xs) = sort (remdups ys)"
  then have "set (sort (remdups xs)) = set (sort (remdups ys))" by simp
  then show "set xs = set ys" by simp
next
  assume "set xs = set ys"
  then show "sort (remdups xs) = sort (remdups ys)"
    by (simp add: sorted_list_of_set_sort_remdups [symmetric])
qed

lemma like_with_like_zip:
  "length xs = length ys \<Longrightarrow> like_with_like (zip xs ys) = (xs = ys)"
  unfolding like_with_like_def
  by (induction xs ys rule: list_induct2) auto

lemma label_pairs_like_with_like:
  assumes "card (set current) = card (set reference)"
  shows "like_with_like (chisquare_label_pairs current reference) = (set current = set reference)"
proof -
  have "length (sort (remdups current)) = length (sort (remdups reference))"
    using assms by (simp add: length_remdups_card_conv)
  then show ?thesis
    by (simp add: chisquare_label_pairs_def value_counts_index like_with_like_zip sort_remdups_eq_iff)
qed

lemma frequency_pos: "l \<in> set xs \<Longrightarrow> 0 < frequency xs l"
  using floored_frequency_pos [of xs l] by (simp add: floored_frequency_def count_list_0_iff)

lemma count_as_frequency: "real (count_list xs l) = real (length xs) * frequency xs l"
proof (cases "xs = []")
  case True
  then show ?thesis by (simp add: frequency_def)
next
  case False
  then show ?thesis by (simp add: frequency_def)
qed

lemma spec_counts_scaled:
  assumes "set current = set reference"
  shows "spec_chi2_counts current reference
           = real (length current)
             * sum_list (chisquare_terms (series_values (value_counts_sort_index current))
                                         (series_values (value_counts_sort_index reference)))"
proof -
  let ?ls = "sort (remdups reference)"
  let ?N = "real (length current)"
  have ls: "sort (remdups current) = ?ls" using assms by (simp add: sort_remdups_eq_iff)
  have pairs: "chisquare_label_pairs current reference = map (\<lambda>l. (l, l)) ?ls"
    by (simp add: chisquare_label_pairs_def value_counts_index ls zip_same_conv_map)
  have tm: "(real (count_list current l) - ?N * frequency reference l) ^ 2
                 / (?N * frequency reference l)
              = ?N * ((frequency current l - frequency reference l) ^ 2 / frequency reference l)"
    if "l \<in> set ?ls" for l
  proof -
    from that have "l \<in> set current" using assms by simp
    then have N: "0 < ?N" by (cases current) auto
    have "real (count_list current l) - ?N * frequency reference l
            = ?N * (frequency current l - frequency reference l)"
      by (simp add: count_as_frequency [of current l] algebra_simps)
    then show ?thesis using N by (simp add: power2_eq_square)
  qed
  have "spec_chi2_counts current reference
          = (\<Sum>l\<leftarrow>?ls. (real (count_list current l) - ?N * frequency reference l) ^ 2
                 / (?N * frequency reference l))"
    by (simp add: spec_chi2_counts_def frequency_def)
  also have "\<dots> = (\<Sum>l\<leftarrow>?ls. ?N * ((frequency current l - frequency reference l) ^ 2
                                    / frequency reference l))"
    by (rule arg_cong [where f = sum_list], rule map_cong) (simp_all add: tm)
  also have "\<dots> = ?N * (\<Sum>l\<leftarrow>?ls. (frequency current l - frequency reference l) ^ 2
                                    / frequency reference l)"
    by (simp only: sum_list_const_mult)
  finally show ?thesis
    by (simp add: chisquare_terms_pairs pairs comp_def)
qed

lemma mpd_example:
  "monitor_prediction_drift chi2_sf_two choice_all_zero 0 [0, 0, 1, 2] (Some [0, 1, 1, 2]) =
     Inr \<lparr> kl_divergence = 1 / 4 * ln (1 / 2) + 1 / 2 * ln 2, chi2_statistic = 3 / 8,
           p_value = Some (exp (- (3 / 16))),
           drift_detected = (exp (- (3 / 16)) < (1 / 20 :: real)),
           current_distribution = [(0, 1 / 2), (1, 1 / 4), (2, 1 / 4)],
           reference_distribution = [(0, 1 / 4), (1, 1 / 2), (2, 1 / 4)] \<rparr>"
  by (simp add: monitor_prediction_drift_def value_counts_sort_index_def chisquare_def
        broadcast_shapes_def broadcast_to_def sums_disagree_def chisquare_terms_def
        series_values_def kl_loop_def kl_step_def series_get_def chi2_sf_two_def
        power2_eq_square)

subsection \<open>The KL divergence\<close>

text \<open>
  C5. For every pair of prediction columns, the KL loop sums \<open>p * ln (p / q)\<close> over the
  labels \<open>0, 1, 2\<close>, with \<open>p\<close> the relative frequency of the label in the reference
  predictions and \<open>q\<close> that in the current predictions, each replaced by the floor
  \<open>1e-10\<close> where the label does not occur; every \<open>p\<close> and \<open>q\<close> is positive, so
  nothing is divided by zero and no logarithm of zero is taken; and that sum is the
  \<open>kl_divergence\<close> of every result the function returns.
\<close>

theorem kl_divergence_formula:
  "kl_loop (value_counts_sort_index reference) (value_counts_sort_index current) =
     (\<Sum>i\<leftarrow>[0, 1, 2]. floored_frequency reference i
         * ln (floored_frequency reference i / floored_frequency current i))
   \<and> (\<forall>i. series_get (value_counts_sort_index reference) i (1 / 10 ^ 10)
            = floored_frequency reference i
          \<and> series_get (value_counts_sort_index current) i (1 / 10 ^ 10)
            = floored_frequency current i)
   \<and> (\<forall>i. 0 < floored_frequency reference i \<and> 0 < floored_frequency current i)
   \<and> (\<forall>r. monitor_prediction_drift sf ch n current (Some reference) = Inr r \<longrightarrow>
          kl_divergence r =
            (\<Sum>i\<leftarrow>[0, 1, 2]. floored_frequency reference i
                * ln (floored_frequency reference i / floored_frequency current i)))"
proof (intro conjI allI impI)
  show "kl_loop (value_counts_sort_index reference) (value_counts_sort_index current) =
     (\<Sum>i\<leftarrow>[0, 1, 2]. floored_frequency reference i
         * ln (floored_frequency reference i / floored_frequency current i))"
    by (rule kl_loop_sum)
  show "0 < floored_frequency reference i" for i by (rule floored_frequency_pos)
  show "0 < floored_frequency current i" for i by (rule floored_frequency_pos)
  show "series_get (value_counts_sort_index reference) i (1 / 10 ^ 10)
          = floored_frequency reference i" for i
    by (simp only: series_get_value_counts floored_frequency_def)
  show "series_get (value_counts_sort_index current) i (1 / 10 ^ 10)
          = floored_frequency current i" for i
    by (simp only: series_get_value_counts floored_frequency_def)
  show "kl_divergence r =
            (\<Sum>i\<leftarrow>[0, 1, 2]. floored_frequency reference i
                * ln (floored_frequency reference i / floored_frequency current i))"
    if "monitor_prediction_drift sf ch n current (Some reference) = Inr r" for r
    using mpd_Inr_fields(1) [OF that] by (simp only: kl_loop_sum)
qed

theorem kl_divergence_formula_witness:
  "\<exists>r. monitor_prediction_drift chi2_sf_two choice_all_zero 0 [0, 0, 1, 2] (Some [0, 1, 1, 2]) = Inr r
       \<and> kl_divergence r = 1 / 4 * ln (1 / 2) + (1 / 2 * ln 2 + 1 / 4 * ln 1)"
proof -
  obtain r where
    r: "monitor_prediction_drift chi2_sf_two choice_all_zero 0 [0, 0, 1, 2] (Some [0, 1, 1, 2]) = Inr r"
    using mpd_example by blast
  have "kl_divergence r = 1 / 4 * ln (1 / 2) + (1 / 2 * ln 2 + 1 / 4 * ln 1)"
    using kl_divergence_formula [of "[0, 1, 1, 2]" "[0, 0, 1, 2]" chi2_sf_two choice_all_zero 0] r
    by (simp add: floored_frequency_def frequency_def)
  with r show ?thesis by blast
qed

text \<open>
  C9. Run with the current and the reference predictions both equal to one column, the
  analysis returns a result, and its \<open>kl_divergence\<close> is zero: each term is
  \<open>p * ln (p / p)\<close> with \<open>p\<close> positive.
\<close>

theorem kl_divergence_identical:
  "\<exists>r. monitor_prediction_drift sf ch n d (Some d) = Inr r \<and> kl_divergence r = 0"
proof -
  obtain r where r: "monitor_prediction_drift sf ch n d (Some d) = Inr r"
    using mpd_same_card [of d d] by blast
  have pos: "floored_frequency d i \<noteq> 0" for i
    using floored_frequency_pos [of d i] by simp
  have "kl_divergence r = 0"
    using mpd_Inr_fields(1) [OF r] by (simp add: kl_loop_sum pos)
  with r show ?thesis by blast
qed

subsection \<open>The chi-square statistic\<close>

text \<open>
  What line 252 computes. The \<open>chi2_statistic\<close> of a returned result is the sum of
  \<open>(q - p)\<^sup>2 / p\<close> over the positions of the two series, with \<open>q\<close> the relative frequency
  of the current label at the position and \<open>p\<close> that of the reference label there. The
  arrays handed to \<open>chisquare\<close> hold relative frequencies, where the test is one on
  counts: when both columns observe the same labels, the statistic on counts is the
  returned one times the number of current predictions, so the returned statistic and
  its p-value do not grow with the size of the sample.
\<close>

lemma chi2_statistic_over_proportions:
  assumes "monitor_prediction_drift sf ch n current (Some reference) = Inr r"
  shows "chi2_statistic r =
           (\<Sum>(a, b)\<leftarrow>chisquare_label_pairs current reference.
               (frequency current a - frequency reference b) ^ 2 / frequency reference b)
         \<and> drift_detected r = (\<exists>v. p_value r = Some v \<and> v < 0.05)
         \<and> (set current = set reference \<longrightarrow>
              spec_chi2_counts current reference = real (length current) * chi2_statistic r)"
proof (intro conjI impI)
  show "chi2_statistic r =
           (\<Sum>(a, b)\<leftarrow>chisquare_label_pairs current reference.
               (frequency current a - frequency reference b) ^ 2 / frequency reference b)"
    using mpd_Inr_fields(2) [OF assms] by (simp only: chisquare_terms_pairs)
  show "drift_detected r = (\<exists>v. p_value r = Some v \<and> v < 0.05)"
    using mpd_Inr_fields(3) [OF assms] by (cases "p_value r") simp_all
  show "spec_chi2_counts current reference = real (length current) * chi2_statistic r"
    if "set current = set reference"
    using mpd_Inr_fields(2) [OF assms] spec_counts_scaled [OF that] by simp
qed

lemma exp_small: "\<not> exp (- (49 / 100)) < (1 / 20 :: real)"
proof -
  have "1 + (- (49 / 100)) \<le> exp (- (49 / 100) :: real)" by (rule exp_ge_add_one_self)
  then show ?thesis by simp
qed

lemma exp_large: "exp (- (49 / 10)) < (1 / 20 :: real)"
proof -
  have "1 + 49 / 40 \<le> exp (49 / 40 :: real)" by (rule exp_ge_add_one_self)
  then have "(89 / 40) ^ 4 \<le> exp (49 / 40 :: real) ^ 4"
    by (intro power_mono) simp_all
  also have "exp (49 / 40 :: real) ^ 4 = exp (of_nat 4 * (49 / 40))"
    by (simp only: exp_of_nat_mult)
  also have "\<dots> = exp (49 / 10 :: real)" by simp
  finally have "(20 :: real) < exp (49 / 10)" by (simp add: power4_eq_xxxx)
  then have "inverse (exp (49 / 10 :: real)) < inverse 20"
    by (intro less_imp_inverse_less) simp_all
  then show ?thesis by (simp add: exp_minus)
qed

lemma mpd_skewed:
  "monitor_prediction_drift chi2_sf_two choice_all_zero 0 skewed_current (Some balanced_reference) =
     Inr \<lparr> kl_divergence = kl_loop [(0, 1 / 3), (1, 1 / 3), (2, 1 / 3)]
                                      [(0, 4 / 5), (1, 1 / 10), (2, 1 / 10)],
           chi2_statistic = 49 / 50,
           p_value = Some (exp (- (49 / 100))),
           drift_detected = False,
           current_distribution = [(0, 4 / 5), (1, 1 / 10), (2, 1 / 10)],
           reference_distribution = [(0, 1 / 3), (1, 1 / 3), (2, 1 / 3)] \<rparr>"
  using exp_small
  by (simp add: monitor_prediction_drift_def value_counts_sort_index_def chisquare_def
        broadcast_shapes_def broadcast_to_def sums_disagree_def chisquare_terms_def
        series_values_def chi2_sf_two_def skewed_current_def balanced_reference_def
        power2_eq_square Let_def)

text \<open>
  C6. The statistic asked for is the goodness of fit of the observed current prediction
  counts against the expected counts derived from the reference distribution, with drift
  flagged at a p-value below \<open>0.05\<close>. The code does not return it. For the balanced
  reference \<open>0, 1, 2\<close> and ten current predictions of which eight are of class \<open>0\<close>,
  the returned statistic is \<open>49/50\<close> and \<open>drift_detected\<close> is false, while the statistic
  of the counts is \<open>49/5\<close>, whose p-value at two degrees of freedom is below \<open>0.05\<close>.
\<close>

theorem chi2_statistic_ignores_sample_size:
  "map_option chi2_statistic
     (returned (monitor_prediction_drift chi2_sf_two choice_all_zero 0
                  skewed_current (Some balanced_reference))) = Some (49 / 50)
   \<and> map_option drift_detected
     (returned (monitor_prediction_drift chi2_sf_two choice_all_zero 0
                  skewed_current (Some balanced_reference))) = Some False
   \<and> spec_chi2_counts skewed_current balanced_reference = 49 / 5
   \<and> chi2_sf_two (spec_chi2_counts skewed_current balanced_reference) 2 < 0.05"
proof (intro conjI)
  show "map_option chi2_statistic
     (returned (monitor_prediction_drift chi2_sf_two choice_all_zero 0
                  skewed_current (Some balanced_reference))) = Some (49 / 50)"
    by (simp add: mpd_skewed returned_def)
  show "map_option drift_detected
     (returned (monitor_prediction_drift chi2_sf_two choice_all_zero 0
                  skewed_current (Some balanced_reference))) = Some False"
    by (simp add: mpd_skewed returned_def)
  show c: "spec_chi2_counts skewed_current balanced_reference = 49 / 5"
    by (simp add: spec_chi2_counts_def skewed_current_def balanced_reference_def power2_eq_square)
  show "chi2_sf_two (spec_chi2_counts skewed_current balanced_reference) 2 < 0.05"
    unfolding c using exp_large by (simp add: chi2_sf_two_def)
qed

text \<open>
  C10, as the code has it. The two frequency arrays are paired by position, each in the
  ascending order of its own observed labels. The call returns a result exactly when
  both columns observe the same number of distinct labels, or one column is empty and
  the other observes a single label. When the numbers of distinct labels agree, every
  position pairs a label with itself exactly when both columns observe the same labels.
\<close>

theorem chisquare_alignment_positional:
  "(\<exists>r. monitor_prediction_drift sf ch n current (Some reference) = Inr r)
     = (card (set current) = card (set reference)
        \<or> (current = [] \<and> card (set reference) = 1)
        \<or> (card (set current) = 1 \<and> reference = []))
   \<and> chisquare_label_pairs current reference
       = zip (sort (remdups current)) (sort (remdups reference))
   \<and> (\<forall>r. monitor_prediction_drift sf ch n current (Some reference) = Inr r \<longrightarrow>
          chi2_statistic r =
            (\<Sum>(a, b)\<leftarrow>chisquare_label_pairs current reference.
                (frequency current a - frequency reference b) ^ 2 / frequency reference b))
   \<and> (card (set current) = card (set reference) \<longrightarrow>
         like_with_like (chisquare_label_pairs current reference) = (set current = set reference))"
proof (intro conjI allI impI)
  show "(\<exists>r. monitor_prediction_drift sf ch n current (Some reference) = Inr r)
     = (card (set current) = card (set reference)
        \<or> (current = [] \<and> card (set reference) = 1)
        \<or> (card (set current) = 1 \<and> reference = []))"
    by (rule mpd_completes_iff)
  show "chisquare_label_pairs current reference
       = zip (sort (remdups current)) (sort (remdups reference))"
    by (simp add: chisquare_label_pairs_def value_counts_index)
  show "chi2_statistic r =
            (\<Sum>(a, b)\<leftarrow>chisquare_label_pairs current reference.
                (frequency current a - frequency reference b) ^ 2 / frequency reference b)"
    if "monitor_prediction_drift sf ch n current (Some reference) = Inr r" for r
    using mpd_Inr_fields(2) [OF that] by (simp only: chisquare_terms_pairs)
  show "like_with_like (chisquare_label_pairs current reference) = (set current = set reference)"
    if "card (set current) = card (set reference)"
    using that by (rule label_pairs_like_with_like)
qed

theorem chisquare_alignment_positional_witness:
  "\<exists>r. monitor_prediction_drift chi2_sf_two choice_all_zero 0 [0, 1] (Some [1, 2]) = Inr r
       \<and> chi2_statistic r = 0
       \<and> chisquare_label_pairs [0, 1] [1, 2] = [(0, 1), (1, 2)]
       \<and> \<not> like_with_like (chisquare_label_pairs [0, 1] [1, 2])"
proof -
  note t = chisquare_alignment_positional [of chi2_sf_two choice_all_zero 0 "[0, 1]" "[1, 2]"]
  have c: "card (set [0, 1 :: int]) = card (set [1, 2 :: int])" by simp
  from t c obtain r where
    r: "monitor_prediction_drift chi2_sf_two choice_all_zero 0 [0, 1] (Some [1, 2]) = Inr r"
    by blast
  have p: "chisquare_label_pairs [0, 1] [1, 2] = [(0, 1), (1, 2)]"
    using t by simp
  have "chi2_statistic r = 0"
    using t r by (simp add: p frequency_def)
  moreover have "(0::int) \<in> set [0, 1]" and "(0::int) \<notin> set [1, 2]" by simp_all
  then have "set [0, 1 :: int] \<noteq> set [1, 2 :: int]" by metis
  then have "\<not> like_with_like (chisquare_label_pairs [0, 1] [1, 2])"
    using t c by blast
  ultimately show ?thesis using r p by blast
qed

text \<open>
  C10, as stated, fails: with no current predictions and the reference predictions all
  of class \<open>0\<close>, the columns observe zero and one distinct labels, and the call returns
  a result, with statistic zero and a NaN p-value.
\<close>

theorem chisquare_unequal_label_counts_counterexample:
  "map_option chi2_statistic
     (returned (monitor_prediction_drift chi2_sf_two choice_all_zero 0 [] (Some [0]))) = Some 0
   \<and> map_option p_value
     (returned (monitor_prediction_drift chi2_sf_two choice_all_zero 0 [] (Some [0]))) = Some None
   \<and> card (set ([] :: int list)) = 0 \<and> card (set [0 :: int]) = 1"
  by (simp add: returned_def monitor_prediction_drift_def value_counts_sort_index_def chisquare_def
        broadcast_shapes_def broadcast_to_def sums_disagree_def chisquare_terms_def
        series_values_def Let_def)

section \<open>Two runs on the same arguments\<close>

text \<open>
  C3, as the code has it. With the reference predictions supplied, the result of
  \<open>monitor_prediction_drift\<close> does not depend on the state of the random generator or on
  the size of the monitor's reference data; the summary depends on the clock through its
  \<open>monitoring_timestamp\<close> only, which is the reading of the clock at the call.
\<close>

theorem results_independent_of_ambient_state:
  "monitor_prediction_drift sf ch1 n1 current (Some reference)
     = monitor_prediction_drift sf ch2 n2 current (Some reference)
   \<and> generate_monitoring_summary now1 d t p
     = (generate_monitoring_summary now2 d t p) \<lparr> monitoring_timestamp := now1 \<rparr>
   \<and> monitoring_timestamp (generate_monitoring_summary now1 d t p) = now1"
  by (cases p) (simp_all add: monitor_prediction_drift_def generate_monitoring_summary_def Let_def)

text \<open>
  C3, as stated, fails: two calls of \<open>generate_monitoring_summary\<close> on the same
  arguments at two readings of the clock return different summaries, and two calls of
  \<open>monitor_prediction_drift\<close> without reference predictions at two states of the
  generator return different results.
\<close>

theorem two_runs_differ_counterexample:
  "generate_monitoring_summary clock_reading_a
       \<lparr> dataset_drift_detected = False, dataset_drift_score = 0, n_features_drifted = 0 \<rparr>
       \<lparr> total_tests = 4, passed_tests = 4, success_rate = 1 \<rparr> None
     \<noteq> generate_monitoring_summary clock_reading_b
       \<lparr> dataset_drift_detected = False, dataset_drift_score = 0, n_features_drifted = 0 \<rparr>
       \<lparr> total_tests = 4, passed_tests = 4, success_rate = 1 \<rparr> None
   \<and> monitor_prediction_drift chi2_sf_two choice_all_zero 1 [0] None
     \<noteq> monitor_prediction_drift chi2_sf_two choice_all_one 1 [0] None"
  by (simp add: generate_monitoring_summary_def clock_reading_a_def clock_reading_b_def
        monitor_prediction_drift_def value_counts_sort_index_def chisquare_def
        broadcast_shapes_def broadcast_to_def sums_disagree_def chisquare_terms_def
        series_values_def choice_all_zero_def choice_all_one_def Let_def)

end
